theory Spec2Isabelle
  imports Main
begin

section \<open>The launch file \<open>my_aruco.launch.py\<close>\<close>

text \<open>
  The file \<open>launch/my_aruco.launch.py\<close> has one function,
  \<open>generate_launch_description\<close>. It builds three launch actions from literals, from
  two \<open>LaunchConfiguration\<close> substitutions and from the share directory of the package
  \<open>aruco_ros\<close>, and returns them in a \<open>LaunchDescription\<close>.

  The classes it instantiates (\<open>LaunchConfiguration\<close>, \<open>PythonLaunchDescriptionSource\<close>,
  \<open>IncludeLaunchDescription\<close>, \<open>Node\<close>, \<open>LaunchDescription\<close>) come from the launch
  libraries; here they are plain data, holding the arguments the file passes to them.
\<close>

subsection \<open>Data\<close>

text \<open>
  \<open>LaunchConfiguration(name, default=...)\<close>: a value that is not looked up when the
  object is built, but later, by the launch runtime.
\<close>

datatype substitution = LaunchConfiguration string "string option"

text \<open>\<open>FindPackageShare(package)\<close>.\<close>

datatype find_package = FindPackageShare string

datatype launch_description_source = PythonLaunchDescriptionSource string

text \<open>
  \<open>Node(package=..., executable=..., name=..., arguments=..., output=...)\<close>, with the
  keyword arguments the file uses. \<open>arguments\<close> is optional: the third action gives
  none.
\<close>

record node =
  package :: string
  executable :: string
  name :: string
  arguments :: "string list option"
  "output" :: string

text \<open>
  A launch action. \<open>launch_arguments\<close> of an \<open>IncludeLaunchDescription\<close> is the
  \<open>items()\<close> of a dictionary literal: the pairs in the order they are written.
\<close>

datatype action =
  IncludeLaunchDescription launch_description_source "(string \<times> substitution) list"
| Node node

datatype launch_description = LaunchDescription (entities: "action list")

datatype error =
  PackageNotFoundError string
| SubstitutionFailure string

text \<open>
  What the function and the launch runtime read from outside: the launch configurations
  set by the launch invocation, and the index of installed packages with their share
  directories. Anything else of the environment is the record's extension field.
\<close>

record environment =
  launch_configurations :: "string \<rightharpoonup> string"
  package_share_directories :: "string \<rightharpoonup> string"

subsection \<open>The library calls\<close>

text \<open>
  Modelled from the spec: the method \<open>find\<close> of \<open>FindPackageShare\<close> belongs to the
  launch libraries, not to this repository. It returns the share directory of the
  package named by its argument (the package given to the constructor plays no part),
  and an unresolvable package path is a failure: the lookup raises.
\<close>

fun find_share :: "'a environment_scheme \<Rightarrow> find_package \<Rightarrow> string \<Rightarrow> error + string" where
  "find_share env (FindPackageShare _) package_name =
     (case package_share_directories env package_name of
        None \<Rightarrow> Inl (PackageNotFoundError package_name)
      | Some directory \<Rightarrow> Inr directory)"

text \<open>
  Modelled from the spec: how the external launch runtime resolves a
  \<open>LaunchConfiguration\<close> (its method \<open>perform\<close>, not part of this repository): the
  value set by the launch invocation when there is one, the default otherwise.
\<close>

fun perform :: "'a environment_scheme \<Rightarrow> substitution \<Rightarrow> error + string" where
  "perform env (LaunchConfiguration variable_name default_value) =
     (case launch_configurations env variable_name of
        Some v \<Rightarrow> Inr v
      | None \<Rightarrow>
          (case default_value of
             None \<Rightarrow> Inl (SubstitutionFailure variable_name)
           | Some d \<Rightarrow> Inr d))"

text \<open>
  Modelled from the spec: what the external launch runtime forwards to an included
  sub-launch (not part of this repository): the parameter mapping of the action, each
  value resolved in the environment of the launch. A node forwards none.
\<close>

fun perform_launch_arguments ::
  "'a environment_scheme \<Rightarrow> action \<Rightarrow> (string \<times> (error + string)) list" where
  "perform_launch_arguments env (IncludeLaunchDescription _ launch_arguments) =
     map (\<lambda>(k, v). (k, perform env v)) launch_arguments"
| "perform_launch_arguments env (Node _) = []"

subsection \<open>\<open>generate_launch_description\<close>\<close>

text \<open>The three actions, under the names of the function's local variables.\<close>

definition aruco_single_launch :: "string \<Rightarrow> action" where
  "aruco_single_launch aruco_launch_file =
     (let marker_size = LaunchConfiguration ''marker_size'' (Some ''0.1'');
          marker_id = LaunchConfiguration ''marker_id'' (Some ''201'')
      in IncludeLaunchDescription
           (PythonLaunchDescriptionSource aruco_launch_file)
           [(''marker_size'', marker_size), (''marker_id'', marker_id)])"

definition static_transform_publisher :: action where
  "static_transform_publisher =
     Node \<lparr>package = ''tf2_ros'',
           executable = ''static_transform_publisher'',
           name = ''static_transform_publisher'',
           arguments = Some [''0'', ''0'', ''0'', ''1.57'', ''3.14'', ''1.57'',
                             ''camera_link'', ''stereo_gazebo_left_camera_optical_frame''],
           output = ''screen''\<rparr>"

definition rqt_image_view :: action where
  "rqt_image_view =
     Node \<lparr>package = ''rqt_image_view'',
           executable = ''rqt_image_view'',
           name = ''rqt_image_view'',
           arguments = None,
           output = ''screen''\<rparr>"

definition generate_launch_description :: "'a environment_scheme \<Rightarrow> error + launch_description" where
  "generate_launch_description env =
     (case find_share env (FindPackageShare ''aruco_ros'') ''aruco_ros'' of
        Inl e \<Rightarrow> Inl e
      | Inr share \<Rightarrow>
          (let aruco_launch_file = share @ ''/launch/single.launch.py''
           in Inr (LaunchDescription
                     [aruco_single_launch aruco_launch_file,
                      static_transform_publisher,
                      rqt_image_view])))"


section \<open>Properties\<close>

subsection \<open>When the function returns, and what\<close>

lemmas gld_defs = generate_launch_description_def aruco_single_launch_def
  static_transform_publisher_def rqt_image_view_def

lemma generate_Inr:
  "generate_launch_description env = Inr ld \<longleftrightarrow>
     (\<exists>share. package_share_directories env ''aruco_ros'' = Some share \<and>
        ld = LaunchDescription [aruco_single_launch (share @ ''/launch/single.launch.py''),
               static_transform_publisher, rqt_image_view])"
  by (auto simp: generate_launch_description_def split: option.splits)

lemma generate_found:
  assumes "package_share_directories env ''aruco_ros'' = Some share"
  shows "generate_launch_description env =
           Inr (LaunchDescription
                  [aruco_single_launch (share @ ''/launch/single.launch.py''),
                   static_transform_publisher, rqt_image_view])"
  using assms by (simp add: generate_launch_description_def)

text \<open>
  C1, as amended. Whenever the share directory of \<open>aruco_ros\<close> is found,
  \<open>generate_launch_description\<close> returns a launch description of exactly three
  actions, in the order: the included sub-launch, the static-transform-publisher node,
  the image-viewer node. Whenever it is not found, the lookup raises and nothing is
  returned.
\<close>

theorem three_directives_in_order:
  "(case package_share_directories env ''aruco_ros'' of
      None \<Rightarrow>
        generate_launch_description env = Inl (PackageNotFoundError ''aruco_ros'')
    | Some share \<Rightarrow>
        (\<exists>source launch_arguments stp viewer.
           generate_launch_description env =
             Inr (LaunchDescription
                    [IncludeLaunchDescription source launch_arguments, Node stp, Node viewer])
           \<and> executable stp = ''static_transform_publisher''
           \<and> executable viewer = ''rqt_image_view''))"
proof (cases "package_share_directories env ''aruco_ros''")
  case None
  then show ?thesis
    by (simp add: generate_launch_description_def)
next
  case (Some share)
  then show ?thesis
    by (simp add: gld_defs)
qed

theorem three_directives_in_order_witness:
  "\<exists>source launch_arguments stp viewer.
     generate_launch_description
       \<lparr>launch_configurations = Map.empty,
        package_share_directories = [''aruco_ros'' \<mapsto> ''/opt/ros/share/aruco_ros'']\<rparr> =
       Inr (LaunchDescription
              [IncludeLaunchDescription source launch_arguments, Node stp, Node viewer])
     \<and> executable stp = ''static_transform_publisher''
     \<and> executable viewer = ''rqt_image_view''"
  using three_directives_in_order
    [of "\<lparr>launch_configurations = Map.empty,
         package_share_directories = [''aruco_ros'' \<mapsto> ''/opt/ros/share/aruco_ros'']\<rparr>"]
  by simp

text \<open>
  C1 as stated ("for every invocation") fails: where the package \<open>aruco_ros\<close> is not
  installed, the lookup on line 14 raises and no launch description is returned.
\<close>

theorem missing_package_raises:
  "generate_launch_description
     \<lparr>launch_configurations = Map.empty, package_share_directories = Map.empty\<rparr> =
   Inl (PackageNotFoundError ''aruco_ros'')"
  by (simp add: generate_launch_description_def)

subsection \<open>The literal fields\<close>

text \<open>
  C2, as amended. Whenever the share directory of \<open>aruco_ros\<close> is found,
  \<open>generate_launch_description\<close> returns a launch description whose
  static-transform-publisher action (its second action) has the argument list
  \<open>0 0 0 1.57 3.14 1.57 camera_link stereo_gazebo_left_camera_optical_frame\<close>: six
  scalars, then the parent and the child frame.
\<close>

theorem static_transform_arguments:
  assumes "package_share_directories env ''aruco_ros'' = Some share"
  shows "\<exists>ld stp.
           generate_launch_description env = Inr ld
           \<and> entities ld ! 1 = Node stp
           \<and> executable stp = ''static_transform_publisher''
           \<and> arguments stp =
               Some [''0'', ''0'', ''0'', ''1.57'', ''3.14'', ''1.57'',
                     ''camera_link'', ''stereo_gazebo_left_camera_optical_frame'']"
proof -
  let ?ld = "LaunchDescription
               [aruco_single_launch (share @ ''/launch/single.launch.py''),
                static_transform_publisher, rqt_image_view]"
  from assms have returned: "generate_launch_description env = Inr ?ld"
    by (rule generate_found)
  have "entities ?ld ! 1 = static_transform_publisher"
    by simp
  with returned show ?thesis
    by (simp add: static_transform_publisher_def)
qed

theorem static_transform_arguments_witness:
  "\<exists>ld stp.
     generate_launch_description
       \<lparr>launch_configurations = Map.empty,
        package_share_directories = [''aruco_ros'' \<mapsto> ''/opt/ros/share/aruco_ros'']\<rparr> =
       Inr ld
     \<and> entities ld ! 1 = Node stp
     \<and> executable stp = ''static_transform_publisher''
     \<and> arguments stp =
         Some [''0'', ''0'', ''0'', ''1.57'', ''3.14'', ''1.57'',
               ''camera_link'', ''stereo_gazebo_left_camera_optical_frame'']"
  using static_transform_arguments
    [of "\<lparr>launch_configurations = Map.empty,
         package_share_directories = [''aruco_ros'' \<mapsto> ''/opt/ros/share/aruco_ros'']\<rparr>"
        "''/opt/ros/share/aruco_ros''"]
  by simp

text \<open>
  C2 as stated ("for every invocation") fails: with \<open>tf2_ros\<close> installed but
  \<open>aruco_ros\<close> missing, the call raises and returns no static-transform-publisher
  action at all.
\<close>

theorem no_static_transform_without_aruco:
  "generate_launch_description
     \<lparr>launch_configurations = Map.empty,
      package_share_directories = [''tf2_ros'' \<mapsto> ''/opt/ros/share/tf2_ros'']\<rparr> =
   Inl (PackageNotFoundError ''aruco_ros'')"
  by (simp add: generate_launch_description_def)

text \<open>
  C8, as amended. Whenever the share directory of \<open>aruco_ros\<close> is found,
  \<open>generate_launch_description\<close> returns a launch description in which the second
  action is a node with package \<open>tf2_ros\<close>, executable and name
  \<open>static_transform_publisher\<close>; the third is a node with package, executable and name
  \<open>rqt_image_view\<close> and no argument list; both have the output mode \<open>screen\<close>.
\<close>

theorem node_literal_fields:
  assumes "package_share_directories env ''aruco_ros'' = Some share"
  shows "\<exists>ld stp viewer.
           generate_launch_description env = Inr ld
           \<and> entities ld ! 1 = Node stp \<and> entities ld ! 2 = Node viewer
           \<and> package stp = ''tf2_ros''
           \<and> executable stp = ''static_transform_publisher''
           \<and> name stp = ''static_transform_publisher''
           \<and> output stp = ''screen''
           \<and> package viewer = ''rqt_image_view''
           \<and> executable viewer = ''rqt_image_view''
           \<and> name viewer = ''rqt_image_view''
           \<and> arguments viewer = None
           \<and> output viewer = ''screen''"
  using generate_found [OF assms]
  by (simp add: static_transform_publisher_def rqt_image_view_def)

theorem node_literal_fields_witness:
  "\<exists>ld stp viewer.
     generate_launch_description
       \<lparr>launch_configurations = [''marker_id'' \<mapsto> ''26''],
        package_share_directories =
          [''aruco_ros'' \<mapsto> ''/ws/install/aruco_ros/share/aruco_ros'']\<rparr> =
       Inr ld
     \<and> entities ld ! 1 = Node stp \<and> entities ld ! 2 = Node viewer
     \<and> package stp = ''tf2_ros''
     \<and> executable stp = ''static_transform_publisher''
     \<and> name stp = ''static_transform_publisher''
     \<and> output stp = ''screen''
     \<and> package viewer = ''rqt_image_view''
     \<and> executable viewer = ''rqt_image_view''
     \<and> name viewer = ''rqt_image_view''
     \<and> arguments viewer = None
     \<and> output viewer = ''screen''"
  using node_literal_fields
    [of "\<lparr>launch_configurations = [''marker_id'' \<mapsto> ''26''],
         package_share_directories =
           [''aruco_ros'' \<mapsto> ''/ws/install/aruco_ros/share/aruco_ros'']\<rparr>"
        "''/ws/install/aruco_ros/share/aruco_ros''"]
  by simp

text \<open>
  C8 as stated ("for every invocation") fails: with the packages of both nodes
  installed but \<open>aruco_ros\<close> missing, the call raises and returns neither node.
\<close>

theorem no_nodes_without_aruco:
  "generate_launch_description
     \<lparr>launch_configurations = Map.empty,
      package_share_directories =
        [''tf2_ros'' \<mapsto> ''/opt/ros/share/tf2_ros'',
         ''rqt_image_view'' \<mapsto> ''/opt/ros/share/rqt_image_view'']\<rparr> =
   Inl (PackageNotFoundError ''aruco_ros'')"
  by (simp add: generate_launch_description_def)

text \<open>
  C7, as amended. Whenever the share directory of \<open>aruco_ros\<close> is found,
  \<open>generate_launch_description\<close> returns a launch description whose included
  sub-launch has as its source that share directory followed by
  \<open>/launch/single.launch.py\<close>.
\<close>

theorem included_source_path:
  assumes "package_share_directories env ''aruco_ros'' = Some share"
  shows "\<exists>ld launch_arguments.
           generate_launch_description env = Inr ld
           \<and> entities ld ! 0 =
               IncludeLaunchDescription
                 (PythonLaunchDescriptionSource (share @ ''/launch/single.launch.py''))
                 launch_arguments"
proof -
  let ?file = "share @ ''/launch/single.launch.py''"
  let ?ld = "LaunchDescription
               [aruco_single_launch ?file, static_transform_publisher, rqt_image_view]"
  from assms have "generate_launch_description env = Inr ?ld"
    by (rule generate_found)
  moreover have "entities ?ld ! 0 =
      IncludeLaunchDescription (PythonLaunchDescriptionSource ?file)
        [(''marker_size'', LaunchConfiguration ''marker_size'' (Some ''0.1'')),
         (''marker_id'', LaunchConfiguration ''marker_id'' (Some ''201''))]"
    by (simp add: aruco_single_launch_def)
  ultimately show ?thesis
    by blast
qed

theorem included_source_path_witness:
  "\<exists>ld launch_arguments.
     generate_launch_description
       \<lparr>launch_configurations = Map.empty,
        package_share_directories = [''aruco_ros'' \<mapsto> ''/usr/share/aruco_ros'']\<rparr> =
       Inr ld
     \<and> entities ld ! 0 =
         IncludeLaunchDescription
           (PythonLaunchDescriptionSource ''/usr/share/aruco_ros/launch/single.launch.py'')
           launch_arguments"
  using included_source_path
    [of "\<lparr>launch_configurations = Map.empty,
         package_share_directories = [''aruco_ros'' \<mapsto> ''/usr/share/aruco_ros'']\<rparr>"
        "''/usr/share/aruco_ros''"]
  by simp

text \<open>
  C7 as stated ("for every invocation") fails: where only a package of another name
  is installed there is no share directory of \<open>aruco_ros\<close>; the call raises and
  returns no included sub-launch.
\<close>

theorem no_source_path_without_aruco:
  "generate_launch_description
     \<lparr>launch_configurations = Map.empty,
      package_share_directories = [''aruco_msgs'' \<mapsto> ''/opt/ros/share/aruco_msgs'']\<rparr> =
   Inl (PackageNotFoundError ''aruco_ros'')"
  by (simp add: generate_launch_description_def)

subsection \<open>The marker parameters\<close>

text \<open>
  C3, as amended. Whenever the share directory of \<open>aruco_ros\<close> is found,
  \<open>generate_launch_description\<close> returns a launch description whose included
  sub-launch forwards a parameter mapping with exactly the two keys \<open>marker_size\<close> and
  \<open>marker_id\<close>; the launch runtime resolves each to the value configured from outside
  when there is one, and to the defaults \<open>0.1\<close> and \<open>201\<close> otherwise.
\<close>

theorem forwarded_marker_parameters:
  assumes "package_share_directories env ''aruco_ros'' = Some share"
  shows "\<exists>ld source launch_arguments.
           generate_launch_description env = Inr ld
           \<and> entities ld ! 0 = IncludeLaunchDescription source launch_arguments
           \<and> map fst launch_arguments = [''marker_size'', ''marker_id'']
           \<and> perform_launch_arguments env (entities ld ! 0) =
               [(''marker_size'',
                 Inr (case launch_configurations env ''marker_size'' of
                        Some v \<Rightarrow> v | None \<Rightarrow> ''0.1'')),
                (''marker_id'',
                 Inr (case launch_configurations env ''marker_id'' of
                        Some v \<Rightarrow> v | None \<Rightarrow> ''201''))]"
  using generate_found [OF assms]
  by (auto simp: aruco_single_launch_def split: option.splits)

theorem forwarded_marker_parameters_witness:
  "\<exists>ld source launch_arguments.
     generate_launch_description
       \<lparr>launch_configurations = [''marker_size'' \<mapsto> ''0.25''],
        package_share_directories = [''aruco_ros'' \<mapsto> ''/opt/ros/share/aruco_ros'']\<rparr> =
       Inr ld
     \<and> entities ld ! 0 = IncludeLaunchDescription source launch_arguments
     \<and> map fst launch_arguments = [''marker_size'', ''marker_id'']
     \<and> perform_launch_arguments
           \<lparr>launch_configurations = [''marker_size'' \<mapsto> ''0.25''],
            package_share_directories = [''aruco_ros'' \<mapsto> ''/opt/ros/share/aruco_ros'']\<rparr>
           (entities ld ! 0) =
         [(''marker_size'', Inr ''0.25''), (''marker_id'', Inr ''201'')]"
  using forwarded_marker_parameters
    [of "\<lparr>launch_configurations = [''marker_size'' \<mapsto> ''0.25''],
         package_share_directories = [''aruco_ros'' \<mapsto> ''/opt/ros/share/aruco_ros'']\<rparr>"
        "''/opt/ros/share/aruco_ros''"]
  by simp

text \<open>
  C3 as stated ("for every invocation") fails: with \<open>marker_size\<close> configured but
  \<open>aruco_ros\<close> missing, the call raises and nothing is forwarded.
\<close>

theorem nothing_forwarded_without_aruco:
  "generate_launch_description
     \<lparr>launch_configurations = [''marker_size'' \<mapsto> ''0.25''],
      package_share_directories = Map.empty\<rparr> =
   Inl (PackageNotFoundError ''aruco_ros'')"
  by (simp add: generate_launch_description_def)

text \<open>
  C5, as amended. The function does not validate the marker parameters: whenever the
  share directory of \<open>aruco_ros\<close> is found, for every pair of override strings given
  for \<open>marker_size\<close> and \<open>marker_id\<close> it returns, and the overrides are forwarded to
  the included sub-launch unchanged.
\<close>

theorem overrides_forwarded_unchanged:
  assumes "package_share_directories env ''aruco_ros'' = Some share"
    and "launch_configurations env ''marker_size'' = Some size_override"
    and "launch_configurations env ''marker_id'' = Some id_override"
  shows "\<exists>source launch_arguments others.
           generate_launch_description env =
             Inr (LaunchDescription
                    (IncludeLaunchDescription source launch_arguments # others))
           \<and> perform_launch_arguments env
                 (IncludeLaunchDescription source launch_arguments) =
               [(''marker_size'', Inr size_override), (''marker_id'', Inr id_override)]"
  using assms by (simp add: generate_launch_description_def aruco_single_launch_def)

theorem overrides_forwarded_unchanged_witness:
  "\<exists>source launch_arguments others.
     generate_launch_description
       \<lparr>launch_configurations =
          [''marker_size'' \<mapsto> ''ten metres'', ''marker_id'' \<mapsto> ''2.5x''],
        package_share_directories = [''aruco_ros'' \<mapsto> ''/opt/ros/share/aruco_ros'']\<rparr> =
       Inr (LaunchDescription
              (IncludeLaunchDescription source launch_arguments # others))
     \<and> perform_launch_arguments
           \<lparr>launch_configurations =
              [''marker_size'' \<mapsto> ''ten metres'', ''marker_id'' \<mapsto> ''2.5x''],
            package_share_directories = [''aruco_ros'' \<mapsto> ''/opt/ros/share/aruco_ros'']\<rparr>
           (IncludeLaunchDescription source launch_arguments) =
         [(''marker_size'', Inr ''ten metres''), (''marker_id'', Inr ''2.5x'')]"
  using overrides_forwarded_unchanged
    [of "\<lparr>launch_configurations =
            [''marker_size'' \<mapsto> ''ten metres'', ''marker_id'' \<mapsto> ''2.5x''],
          package_share_directories = [''aruco_ros'' \<mapsto> ''/opt/ros/share/aruco_ros'']\<rparr>"
        "''/opt/ros/share/aruco_ros''" "''ten metres''" "''2.5x''"]
  by simp

text \<open>
  C5 as stated ("it raises no error") fails: with the package \<open>aruco_ros\<close> missing the
  call raises, whatever the override strings are.
\<close>

theorem overrides_with_missing_package:
  "generate_launch_description
     \<lparr>launch_configurations =
        [''marker_size'' \<mapsto> ''ten metres'', ''marker_id'' \<mapsto> ''2.5x''],
      package_share_directories = Map.empty\<rparr> =
   Inl (PackageNotFoundError ''aruco_ros'')"
  by (simp add: generate_launch_description_def)

text \<open>
  C6. Changing the launch configurations (so also \<open>marker_size\<close> and \<open>marker_id\<close>)
  leaves the static-transform-publisher action and the image-viewer action of the
  returned launch description as they were.
\<close>

theorem marker_change_leaves_nodes:
  assumes "generate_launch_description env = Inr ld"
  shows "\<exists>ld'. generate_launch_description (env\<lparr>launch_configurations := configurations\<rparr>) = Inr ld'
           \<and> length (entities ld') = length (entities ld)
           \<and> entities ld' ! 1 = entities ld ! 1
           \<and> entities ld' ! 2 = entities ld ! 2"
proof -
  from assms obtain share where share: "package_share_directories env ''aruco_ros'' = Some share"
    and ld: "ld = LaunchDescription [aruco_single_launch (share @ ''/launch/single.launch.py''),
            static_transform_publisher, rqt_image_view]"
    by (auto simp: generate_Inr)
  from share have
    "package_share_directories (env\<lparr>launch_configurations := configurations\<rparr>) ''aruco_ros'' =
       Some share"
    by simp
  then have "generate_launch_description (env\<lparr>launch_configurations := configurations\<rparr>) = Inr ld"
    unfolding generate_Inr using ld by blast
  then show ?thesis
    by simp
qed

theorem marker_change_leaves_nodes_witness:
  "generate_launch_description
     \<lparr>launch_configurations = Map.empty,
      package_share_directories = [''aruco_ros'' \<mapsto> ''/opt/ros/share/aruco_ros'']\<rparr> =
     Inr (LaunchDescription
            [aruco_single_launch ''/opt/ros/share/aruco_ros/launch/single.launch.py'',
             static_transform_publisher, rqt_image_view])
   \<and> (\<exists>ld'.
         generate_launch_description
           \<lparr>launch_configurations = [''marker_size'' \<mapsto> ''0.05'', ''marker_id'' \<mapsto> ''115''],
            package_share_directories = [''aruco_ros'' \<mapsto> ''/opt/ros/share/aruco_ros'']\<rparr> =
           Inr ld'
         \<and> length (entities ld') = 3
         \<and> entities ld' ! 1 = static_transform_publisher
         \<and> entities ld' ! 2 = rqt_image_view)"
proof -
  have returned:
    "generate_launch_description
       \<lparr>launch_configurations = Map.empty,
        package_share_directories = [''aruco_ros'' \<mapsto> ''/opt/ros/share/aruco_ros'']\<rparr> =
       Inr (LaunchDescription
              [aruco_single_launch ''/opt/ros/share/aruco_ros/launch/single.launch.py'',
               static_transform_publisher, rqt_image_view])"
    by (simp add: generate_launch_description_def)
  from returned
    marker_change_leaves_nodes
      [OF returned, of "[''marker_size'' \<mapsto> ''0.05'', ''marker_id'' \<mapsto> ''115'']"]
  show ?thesis
    by (auto simp: numeral_3_eq_3)
qed

subsection \<open>What the result depends on\<close>

text \<open>
  C4, as amended. Two invocations under the same configuration of \<open>marker_size\<close> and
  \<open>marker_id\<close> and the same share directory of \<open>aruco_ros\<close> have the same outcome:
  equal launch descriptions, or the same error.
\<close>

theorem same_inputs_same_description:
  assumes "launch_configurations env1 ''marker_size'' = launch_configurations env2 ''marker_size''"
    and "launch_configurations env1 ''marker_id'' = launch_configurations env2 ''marker_id''"
    and "package_share_directories env1 ''aruco_ros'' = package_share_directories env2 ''aruco_ros''"
  shows "generate_launch_description env1 = generate_launch_description env2"
  using assms by (simp add: generate_launch_description_def)

theorem same_inputs_same_description_witness:
  "generate_launch_description
     \<lparr>launch_configurations = [''marker_size'' \<mapsto> ''0.2'', ''marker_id'' \<mapsto> ''7''],
      package_share_directories = [''aruco_ros'' \<mapsto> ''/opt/ros/share/aruco_ros'']\<rparr> =
   generate_launch_description
     \<lparr>launch_configurations = [''marker_id'' \<mapsto> ''7'', ''marker_size'' \<mapsto> ''0.2'', ''rviz'' \<mapsto> ''true''],
      package_share_directories = [''aruco_ros'' \<mapsto> ''/opt/ros/share/aruco_ros'']\<rparr>"
  using same_inputs_same_description
    [of "\<lparr>launch_configurations = [''marker_size'' \<mapsto> ''0.2'', ''marker_id'' \<mapsto> ''7''],
          package_share_directories = [''aruco_ros'' \<mapsto> ''/opt/ros/share/aruco_ros'']\<rparr>"
        "\<lparr>launch_configurations = [''marker_id'' \<mapsto> ''7'', ''marker_size'' \<mapsto> ''0.2'', ''rviz'' \<mapsto> ''true''],
          package_share_directories = [''aruco_ros'' \<mapsto> ''/opt/ros/share/aruco_ros'']\<rparr>"]
  by simp

text \<open>
  C4 as stated fails: the same configuration of \<open>marker_size\<close> and \<open>marker_id\<close> does
  not fix the result, since the source of the included sub-launch is built from the
  place where \<open>aruco_ros\<close> is installed.
\<close>

theorem same_markers_other_share_directory:
  "generate_launch_description
     \<lparr>launch_configurations = [''marker_size'' \<mapsto> ''0.2'', ''marker_id'' \<mapsto> ''7''],
      package_share_directories = [''aruco_ros'' \<mapsto> ''/opt/ros/share/aruco_ros'']\<rparr> \<noteq>
   generate_launch_description
     \<lparr>launch_configurations = [''marker_size'' \<mapsto> ''0.2'', ''marker_id'' \<mapsto> ''7''],
      package_share_directories = [''aruco_ros'' \<mapsto> ''/home/user/ws/share/aruco_ros'']\<rparr>"
  by (simp add: generate_launch_description_def aruco_single_launch_def)

text \<open>
  C9. The result depends on the environment only through the launch configurations
  \<open>marker_size\<close> and \<open>marker_id\<close> and the share directory of \<open>aruco_ros\<close>: two
  environments that agree on these three give the same outcome, and the same resolved
  parameters for every action returned, whatever else differs between them (other
  launch configurations, other packages, the rest of the environment).
\<close>

theorem depends_on_three_inputs_only:
  fixes env1 :: "'a environment_scheme" and env2 :: "'b environment_scheme"
  assumes "launch_configurations env1 ''marker_size'' = launch_configurations env2 ''marker_size''"
    and "launch_configurations env1 ''marker_id'' = launch_configurations env2 ''marker_id''"
    and "package_share_directories env1 ''aruco_ros'' = package_share_directories env2 ''aruco_ros''"
  shows "generate_launch_description env1 = generate_launch_description env2
         \<and> (case generate_launch_description env1 of
               Inl e \<Rightarrow> True
             | Inr ld \<Rightarrow>
                 map (perform_launch_arguments env1) (entities ld) =
                 map (perform_launch_arguments env2) (entities ld))"
proof
  from assms(3) show "generate_launch_description env1 = generate_launch_description env2"
    by (simp add: generate_launch_description_def)
next
  show "case generate_launch_description env1 of
          Inl e \<Rightarrow> True
        | Inr ld \<Rightarrow>
            map (perform_launch_arguments env1) (entities ld) =
            map (perform_launch_arguments env2) (entities ld)"
  proof (cases "generate_launch_description env1")
    case (Inl e)
    then show ?thesis by simp
  next
    case (Inr ld)
    then obtain share where
      "ld = LaunchDescription [aruco_single_launch (share @ ''/launch/single.launch.py''),
              static_transform_publisher, rqt_image_view]"
      by (auto simp: generate_Inr)
    with Inr assms(1,2) show ?thesis
      by (simp add: aruco_single_launch_def static_transform_publisher_def rqt_image_view_def)
  qed
qed

theorem depends_on_three_inputs_only_witness:
  "generate_launch_description
     \<lparr>launch_configurations = [''marker_size'' \<mapsto> ''0.2'', ''use_sim_time'' \<mapsto> ''true''],
      package_share_directories =
        [''aruco_ros'' \<mapsto> ''/opt/ros/share/aruco_ros'', ''tf2_ros'' \<mapsto> ''/opt/ros/share/tf2_ros'']\<rparr> =
   generate_launch_description
     \<lparr>launch_configurations = [''marker_size'' \<mapsto> ''0.2''],
      package_share_directories = [''aruco_ros'' \<mapsto> ''/opt/ros/share/aruco_ros''],
      \<dots> = ''ROS_DOMAIN_ID=7''\<rparr>
   \<and> map (perform_launch_arguments
             \<lparr>launch_configurations = [''marker_size'' \<mapsto> ''0.2'', ''use_sim_time'' \<mapsto> ''true''],
              package_share_directories =
                [''aruco_ros'' \<mapsto> ''/opt/ros/share/aruco_ros'',
                 ''tf2_ros'' \<mapsto> ''/opt/ros/share/tf2_ros'']\<rparr>)
         [aruco_single_launch ''/opt/ros/share/aruco_ros/launch/single.launch.py'',
          static_transform_publisher, rqt_image_view] =
       map (perform_launch_arguments
             \<lparr>launch_configurations = [''marker_size'' \<mapsto> ''0.2''],
              package_share_directories = [''aruco_ros'' \<mapsto> ''/opt/ros/share/aruco_ros''],
              \<dots> = ''ROS_DOMAIN_ID=7''\<rparr>)
         [aruco_single_launch ''/opt/ros/share/aruco_ros/launch/single.launch.py'',
          static_transform_publisher, rqt_image_view]"
  using depends_on_three_inputs_only
    [of "\<lparr>launch_configurations = [''marker_size'' \<mapsto> ''0.2'', ''use_sim_time'' \<mapsto> ''true''],
          package_share_directories =
            [''aruco_ros'' \<mapsto> ''/opt/ros/share/aruco_ros'',
             ''tf2_ros'' \<mapsto> ''/opt/ros/share/tf2_ros'']\<rparr>"
        "\<lparr>launch_configurations = [''marker_size'' \<mapsto> ''0.2''],
          package_share_directories = [''aruco_ros'' \<mapsto> ''/opt/ros/share/aruco_ros''],
          \<dots> = ''ROS_DOMAIN_ID=7''\<rparr>"]
  by (simp add: generate_launch_description_def)

end
